theory Spec2Isabelle
  imports Main
begin

section \<open>Python values, exceptions and the observable world\<close>

text \<open>
  A raised Python exception is a value: its class name and its message. The only thing
  the code under study asks of an exception is whether \<^verbatim>\<open>except Exception\<close> catches it,
  so the two constructors separate the instances of \<^verbatim>\<open>Exception\<close> from the exceptions
  that derive from \<^verbatim>\<open>BaseException\<close> alone (\<^verbatim>\<open>KeyboardInterrupt\<close>, \<^verbatim>\<open>SystemExit\<close>,
  \<^verbatim>\<open>GeneratorExit\<close>).
\<close>

datatype exn = Exception string string | BaseException string string

fun is_Exception :: "exn \<Rightarrow> bool" where
  "is_Exception (Exception c m) = True"
| "is_Exception (BaseException c m) = False"

text \<open>
  The arguments that travel through \<^verbatim>\<open>*args\<close> and \<^verbatim>\<open>**kwargs\<close>: \<^verbatim>\<open>None\<close>, integers,
  strings and session objects. A session object is identified by the number of the
  \<^verbatim>\<open>settings.Session()\<close> call that produced it.
\<close>

datatype pyval = PNone | PInt int | PStr string | PSession nat

text \<open>
  Everything the code does to the outside is appended to a trace: the construction of a
  session and the calls of \<^verbatim>\<open>commit\<close>, \<^verbatim>\<open>rollback\<close>, \<^verbatim>\<open>close\<close> and
  \<^verbatim>\<open>connection().execute\<close> on it. A call is recorded whether it returns or raises.
\<close>

datatype event =
    EvSession nat
  | EvCommit nat
  | EvRollback nat
  | EvClose nat
  | EvExecute nat string

record world =
  opened :: nat
  trace :: "event list"

text \<open>
  The database behind the sessions is a parameter: for each session it says whether
  \<^verbatim>\<open>commit\<close>, \<^verbatim>\<open>rollback\<close> and \<^verbatim>\<open>close\<close> return (\<open>None\<close>) or raise, what a statement
  returns or raises, and what the connection's dialect reports. A statement returns the
  scalar of its single row, \<open>None\<close> standing for SQL \<^verbatim>\<open>NULL\<close>. A session hands out its
  connection and the dialect without failing, and \<^verbatim>\<open>server_version_info\<close> is a tuple of
  integers.
\<close>

record db =
  commit_result :: "nat \<Rightarrow> exn option"
  rollback_result :: "nat \<Rightarrow> exn option"
  close_result :: "nat \<Rightarrow> exn option"
  execute_result :: "nat \<Rightarrow> string \<Rightarrow> exn + int option"
  dialect_name :: string
  server_version_info :: "int list"

type_synonym 'a outcome = "(exn + 'a) \<times> world"

definition emit :: "event \<Rightarrow> world \<Rightarrow> world" where
  "emit e w = w\<lparr>trace := trace w @ [e]\<rparr>"

text \<open>
  \<^verbatim>\<open>settings.Session()\<close> constructs a session object; it reaches no database and does not
  raise.
\<close>

definition settings_Session :: "world \<Rightarrow> nat \<times> world" where
  "settings_Session w =
     (opened w, w\<lparr>opened := Suc (opened w), trace := trace w @ [EvSession (opened w)]\<rparr>)"

definition session_commit :: "db \<Rightarrow> nat \<Rightarrow> world \<Rightarrow> exn option \<times> world" where
  "session_commit d s w = (commit_result d s, emit (EvCommit s) w)"

definition session_rollback :: "db \<Rightarrow> nat \<Rightarrow> world \<Rightarrow> exn option \<times> world" where
  "session_rollback d s w = (rollback_result d s, emit (EvRollback s) w)"

definition session_close :: "db \<Rightarrow> nat \<Rightarrow> world \<Rightarrow> exn option \<times> world" where
  "session_close d s w = (close_result d s, emit (EvClose s) w)"

section \<open>\<^verbatim>\<open>create_session\<close>\<close>

text \<open>
  \<^verbatim>\<open>
  @contextlib.contextmanager
  def create_session():
      session = settings.Session()
      try:
          yield session
          session.commit()
      except Exception:
          session.rollback()
          raise
      finally:
          session.close()
  \<close>
  The function is modelled together with the \<^verbatim>\<open>with\<close> statement that drives it: the
  block of the \<^verbatim>\<open>with\<close> is the argument \<open>block\<close>, which receives the session and
  either completes with a value or raises. An exception of the block is thrown into the
  generator at the \<^verbatim>\<open>yield\<close>, so it is inside the \<^verbatim>\<open>try\<close>, and so is \<^verbatim>\<open>commit\<close>.

  \<open>except_Exception\<close> is the handler with its guard: an instance of \<^verbatim>\<open>Exception\<close> is
  answered by \<^verbatim>\<open>rollback\<close> and re-raised by the bare \<^verbatim>\<open>raise\<close>; an exception that
  \<^verbatim>\<open>rollback\<close> raises leaves the handler in place of the one being handled. Any other
  exception passes the handler by.
\<close>

definition except_Exception :: "db \<Rightarrow> nat \<Rightarrow> exn \<Rightarrow> world \<Rightarrow> exn \<times> world" where
  "except_Exception d s e w =
     (if is_Exception e then
        (case session_rollback d s w of
           (None, w') \<Rightarrow> (e, w')
         | (Some e', w') \<Rightarrow> (e', w'))
      else (e, w))"

definition try_body :: "db \<Rightarrow> nat \<Rightarrow> 'a outcome \<Rightarrow> 'a outcome" where
  "try_body d s bw =
     (case bw of
        (Inr v, w) \<Rightarrow>
          (case session_commit d s w of
             (None, w') \<Rightarrow> (Inr v, w')
           | (Some e, w') \<Rightarrow> (case except_Exception d s e w' of (e', w'') \<Rightarrow> (Inl e', w'')))
      | (Inl e, w) \<Rightarrow> (case except_Exception d s e w of (e', w') \<Rightarrow> (Inl e', w')))"

text \<open>The \<^verbatim>\<open>finally\<close> clause: an exception of \<^verbatim>\<open>close\<close> replaces whatever was pending.\<close>

definition finally_close :: "db \<Rightarrow> nat \<Rightarrow> 'a outcome \<Rightarrow> 'a outcome" where
  "finally_close d s rw =
     (case rw of (r, w) \<Rightarrow>
        (case session_close d s w of
           (None, w') \<Rightarrow> (r, w')
         | (Some e, w') \<Rightarrow> (Inl e, w')))"

definition create_session :: "db \<Rightarrow> (nat \<Rightarrow> world \<Rightarrow> 'a outcome) \<Rightarrow> world \<Rightarrow> 'a outcome" where
  "create_session d block w =
     (case settings_Session w of (s, w1) \<Rightarrow>
        finally_close d s (try_body d s (block s w1)))"

section \<open>\<^verbatim>\<open>find_session_idx\<close> and \<^verbatim>\<open>provide_session\<close>\<close>

text \<open>
  A Python function, as far as the decorator sees it: its \<^verbatim>\<open>__qualname__\<close>, the names
  of \<^verbatim>\<open>signature(func).parameters\<close> in order, and what a call
  \<^verbatim>\<open>func(*args, **kwargs)\<close> does. Keyword arguments are an association list in the
  order of the call.
\<close>

record 'r pyfunc =
  qualname :: string
  parameters :: "string list"
  body :: "pyval list \<Rightarrow> (string \<times> pyval) list \<Rightarrow> world \<Rightarrow> 'r outcome"

text \<open>\<^verbatim>\<open>tuple(func_params).index("session")\<close>; \<open>None\<close> is the \<^verbatim>\<open>ValueError\<close> of \<^verbatim>\<open>index\<close>.\<close>

fun tuple_index :: "'a list \<Rightarrow> 'a \<Rightarrow> nat option" where
  "tuple_index [] x = None"
| "tuple_index (y # ys) x = (if y = x then Some 0 else map_option Suc (tuple_index ys x))"

text \<open>
  \<^verbatim>\<open>
  def find_session_idx(func):
      func_params = signature(func).parameters
      try:
          session_args_idx = tuple(func_params).index("session")
      except ValueError:
          raise ValueError(f"Function {func.__qualname__} has no `session` argument") from None
      return session_args_idx
  \<close>
\<close>

definition find_session_idx :: "'r pyfunc \<Rightarrow> exn + nat" where
  "find_session_idx func =
     (case tuple_index (parameters func) ''session'' of
        None \<Rightarrow>
          Inl (Exception ''ValueError''
                 (''Function '' @ qualname func @ '' has no `session` argument''))
      | Some session_args_idx \<Rightarrow> Inr session_args_idx)"

text \<open>
  \<^verbatim>\<open>
  def provide_session(func):
      session_args_idx = find_session_idx(func)

      @wraps(func)
      def wrapper(*args, **kwargs):
          if "session" in kwargs or session_args_idx < len(args):
              return func(*args, **kwargs)
          else:
              with create_session() as session:
                  return func(*args, session=session, **kwargs)

      return wrapper
  \<close>
  Decorating is a computation of its own, which either raises or returns the wrapper; it
  takes no world, since it calls neither \<open>func\<close> nor the database.
\<close>

definition wrapper ::
  "db \<Rightarrow> 'r pyfunc \<Rightarrow> nat \<Rightarrow> pyval list \<Rightarrow> (string \<times> pyval) list \<Rightarrow> world \<Rightarrow> 'r outcome" where
  "wrapper d func session_args_idx args kwargs w =
     (if ''session'' \<in> set (map fst kwargs) \<or> session_args_idx < length args
      then body func args kwargs w
      else create_session d
             (\<lambda>session. body func args ((''session'', PSession session) # kwargs)) w)"

definition provide_session ::
  "db \<Rightarrow> 'r pyfunc \<Rightarrow> exn + (pyval list \<Rightarrow> (string \<times> pyval) list \<Rightarrow> world \<Rightarrow> 'r outcome)" where
  "provide_session d func =
     (case find_session_idx func of
        Inl e \<Rightarrow> Inl e
      | Inr session_args_idx \<Rightarrow> Inr (wrapper d func session_args_idx))"

section \<open>\<^verbatim>\<open>create_global_lock\<close>\<close>

text \<open>\<^verbatim>\<open>str\<close> of an integer, as an f-string formats \<^verbatim>\<open>{pg_lock_id}\<close> and \<^verbatim>\<open>{mysql_lock_timeout}\<close>.\<close>

definition digit_char :: "nat \<Rightarrow> char" where
  "digit_char n = char_of (48 + n)"

fun str_nat :: "nat \<Rightarrow> string" where
  "str_nat n = (if n < 10 then [digit_char n] else str_nat (n div 10) @ [digit_char (n mod 10)])"

declare str_nat.simps [simp del]

definition str_int :: "int \<Rightarrow> string" where
  "str_int i = (if i < 0 then CHR ''-'' # str_nat (nat (- i)) else str_nat (nat i))"

text \<open>
  Reading a decimal back, to show below that distinct integers are written differently.
\<close>

definition digit_value :: "char \<Rightarrow> nat" where
  "digit_value c = of_char c - 48"

definition nat_of_digits :: "string \<Rightarrow> nat" where
  "nat_of_digits cs = foldl (\<lambda>a c. 10 * a + digit_value c) 0 cs"

text \<open>
  \<^verbatim>\<open>dialect.server_version_info >= (5, 6)\<close>: Python compares tuples lexicographically, and
  a proper prefix is smaller than the tuple it starts.
\<close>

fun tuple_ge :: "int list \<Rightarrow> int list \<Rightarrow> bool" where
  "tuple_ge xs [] = True"
| "tuple_ge [] (y # ys) = False"
| "tuple_ge (x # xs) (y # ys) = (if x = y then tuple_ge xs ys else y < x)"

text \<open>The four statements, as the f-strings of the source build them.\<close>

definition pg_advisory_lock :: "int \<Rightarrow> string" where
  "pg_advisory_lock pg_lock_id = ''select PG_ADVISORY_LOCK('' @ str_int pg_lock_id @ '');''"

definition pg_advisory_unlock :: "int \<Rightarrow> string" where
  "pg_advisory_unlock pg_lock_id = ''select PG_ADVISORY_UNLOCK('' @ str_int pg_lock_id @ '');''"

definition mysql_get_lock :: "string \<Rightarrow> int \<Rightarrow> string" where
  "mysql_get_lock lock_name mysql_lock_timeout =
     ''select GET_LOCK('' @ [CHR 0x27] @ lock_name @ [CHR 0x27] @ '','' @
       str_int mysql_lock_timeout @ '');''"

definition mysql_release_lock :: "string \<Rightarrow> string" where
  "mysql_release_lock lock_name =
     ''select RELEASE_LOCK('' @ [CHR 0x27] @ lock_name @ [CHR 0x27] @ '');''"

text \<open>
  \<^verbatim>\<open>session.connection().execute(stmt)\<close>: the statement goes to the database, which
  returns a value or raises.
\<close>

definition connection_execute :: "db \<Rightarrow> nat \<Rightarrow> string \<Rightarrow> world \<Rightarrow> (int option) outcome" where
  "connection_execute d s stmt w = (execute_result d s stmt, emit (EvExecute s stmt) w)"

text \<open>
  One guarded statement of the source, \<^verbatim>\<open>if cond: session.connection().execute(stmt)\<close>:
  the value the statement returns is dropped, as the source drops it. \<open>and_then\<close> runs
  the next statement unless the one before raised.
\<close>

definition if_execute :: "bool \<Rightarrow> db \<Rightarrow> nat \<Rightarrow> string \<Rightarrow> world \<Rightarrow> exn option \<times> world" where
  "if_execute cond d s stmt w =
     (if cond then
        (case connection_execute d s stmt w of
           (Inl e, w') \<Rightarrow> (Some e, w')
         | (Inr v, w') \<Rightarrow> (None, w'))
      else (None, w))"

definition and_then ::
  "exn option \<times> world \<Rightarrow> (world \<Rightarrow> exn option \<times> world) \<Rightarrow> exn option \<times> world" where
  "and_then r f = (case r of (Some e, w) \<Rightarrow> (Some e, w) | (None, w) \<Rightarrow> f w)"

text \<open>
  \<^verbatim>\<open>
  @provide_session
  @contextlib.contextmanager
  def create_global_lock(session=None, pg_lock_id=1, lock_name='init', mysql_lock_timeout=1800):
      dialect = session.connection().dialect
      try:
          if dialect.name == 'postgresql':
              session.connection().execute(f'select PG_ADVISORY_LOCK({pg_lock_id});')
          if dialect.name == 'mysql' and dialect.server_version_info >= (5, 6):
              session.connection().execute(f"select GET_LOCK('{lock_name}',{mysql_lock_timeout});")
          if dialect.name == 'mssql':
              pass
          yield None
      finally:
          if dialect.name == 'postgresql':
              session.connection().execute(f'select PG_ADVISORY_UNLOCK({pg_lock_id});')
          if dialect.name == 'mysql' and dialect.server_version_info >= (5, 6):
              session.connection().execute(f"select RELEASE_LOCK('{lock_name}');")
          if dialect.name == 'mssql':
              pass
  \<close>
  \<open>lock_entry\<close> is the part of the \<^verbatim>\<open>try\<close> before the \<^verbatim>\<open>yield\<close>, \<open>lock_exit\<close> the
  \<^verbatim>\<open>finally\<close> clause; the \<^verbatim>\<open>mssql\<close> branches do nothing.
\<close>

definition lock_entry :: "db \<Rightarrow> nat \<Rightarrow> int \<Rightarrow> string \<Rightarrow> int \<Rightarrow> world \<Rightarrow> exn option \<times> world" where
  "lock_entry d s pg_lock_id lock_name mysql_lock_timeout w =
     and_then
       (if_execute (dialect_name d = ''postgresql'') d s (pg_advisory_lock pg_lock_id) w)
       (if_execute (dialect_name d = ''mysql'' \<and> tuple_ge (server_version_info d) [5, 6])
          d s (mysql_get_lock lock_name mysql_lock_timeout))"

definition lock_exit :: "db \<Rightarrow> nat \<Rightarrow> int \<Rightarrow> string \<Rightarrow> world \<Rightarrow> exn option \<times> world" where
  "lock_exit d s pg_lock_id lock_name w =
     and_then
       (if_execute (dialect_name d = ''postgresql'') d s (pg_advisory_unlock pg_lock_id) w)
       (if_execute (dialect_name d = ''mysql'' \<and> tuple_ge (server_version_info d) [5, 6])
          d s (mysql_release_lock lock_name))"

text \<open>
  The generator together with the \<^verbatim>\<open>with\<close> statement that drives it. \<open>session\<close> is
  the argument the generator receives; a value that is no session has no
  \<^verbatim>\<open>connection\<close> attribute, and the first line raises before the \<^verbatim>\<open>try\<close> is entered.
  An exception raised on entry skips the block and still runs the \<^verbatim>\<open>finally\<close> clause;
  an exception of the \<^verbatim>\<open>finally\<close> clause replaces whatever was pending.
\<close>

fun type_name :: "pyval \<Rightarrow> string" where
  "type_name PNone = ''NoneType''"
| "type_name (PInt i) = ''int''"
| "type_name (PStr s) = ''str''"
| "type_name (PSession s) = ''Session''"

definition create_global_lock ::
  "db \<Rightarrow> pyval \<Rightarrow> int \<Rightarrow> string \<Rightarrow> int \<Rightarrow> (world \<Rightarrow> 'a outcome) \<Rightarrow> world \<Rightarrow> 'a outcome" where
  "create_global_lock d session pg_lock_id lock_name mysql_lock_timeout block w =
     (case session of
        PSession s \<Rightarrow>
          (case lock_entry d s pg_lock_id lock_name mysql_lock_timeout w of (entered, w1) \<Rightarrow>
             (case (case entered of Some e \<Rightarrow> (Inl e, w1) | None \<Rightarrow> block w1) of (r, w2) \<Rightarrow>
                (case lock_exit d s pg_lock_id lock_name w2 of
                   (Some e, w3) \<Rightarrow> (Inl e, w3)
                 | (None, w3) \<Rightarrow> (r, w3))))
      | other \<Rightarrow>
          (Inl (Exception ''AttributeError''
                  ([CHR 0x27] @ type_name other @ [CHR 0x27] @
                   '' object has no attribute '' @ [CHR 0x27] @ ''connection'' @ [CHR 0x27])),
           w))"

text \<open>
  The decorated function. \<^verbatim>\<open>@contextlib.contextmanager\<close> turns the generator function
  into one that binds the arguments of the call and returns a context manager; the body
  above starts only when a \<^verbatim>\<open>with\<close> statement enters that manager.
  \<^verbatim>\<open>@provide_session\<close> wraps this function, so the wrapper's own \<^verbatim>\<open>with create_session()\<close>
  is over when the manager is returned. Python's binding of \<^verbatim>\<open>*args\<close> and \<^verbatim>\<open>**kwargs\<close>
  to the four parameters and their defaults is the parameter \<open>bind\<close>; it raises a
  \<^verbatim>\<open>TypeError\<close> for a call that does not fit the signature.
\<close>

record lock_arguments =
  bound_session :: pyval
  bound_pg_lock_id :: int
  bound_lock_name :: string
  bound_mysql_lock_timeout :: int

definition create_global_lock_func ::
  "(pyval list \<Rightarrow> (string \<times> pyval) list \<Rightarrow> exn + lock_arguments) \<Rightarrow>
   lock_arguments pyfunc" where
  "create_global_lock_func bind =
     \<lparr>qualname = ''create_global_lock'',
      parameters = [''session'', ''pg_lock_id'', ''lock_name'', ''mysql_lock_timeout''],
      body = (\<lambda>args kwargs w. (bind args kwargs, w))\<rparr>"

text \<open>\<^verbatim>\<open>with create_global_lock(*args, **kwargs): block\<close>, on the decorated function.\<close>

definition with_create_global_lock ::
  "db \<Rightarrow> (pyval list \<Rightarrow> (string \<times> pyval) list \<Rightarrow> exn + lock_arguments) \<Rightarrow>
   pyval list \<Rightarrow> (string \<times> pyval) list \<Rightarrow> (world \<Rightarrow> 'a outcome) \<Rightarrow> world \<Rightarrow> 'a outcome" where
  "with_create_global_lock d bind args kwargs block w =
     (case provide_session d (create_global_lock_func bind) of
        Inl e \<Rightarrow> (Inl e, w)
      | Inr decorated \<Rightarrow>
          (case decorated args kwargs w of
             (Inl e, w1) \<Rightarrow> (Inl e, w1)
           | (Inr a, w1) \<Rightarrow>
               create_global_lock d (bound_session a) (bound_pg_lock_id a) (bound_lock_name a)
                 (bound_mysql_lock_timeout a) block w1))"

section \<open>\<^verbatim>\<open>ValidJson\<close>\<close>

text \<open>
  \<^verbatim>\<open>
  class ValidJson:
      def __init__(self, message=None):
          self.message = message

      def __call__(self, form, field):
          if field.data:
              try:
                  json.loads(field.data)
              except JSONDecodeError as ex:
                  message = self.message or f"JSON Validation Error: {ex}"
                  raise ValidationError(message=field.gettext(message.format(field.data)))
  \<close>
  A field carries its textual content (\<^verbatim>\<open>None\<close> when there is none) and its
  \<^verbatim>\<open>gettext\<close>. The two functions of the Python library that the validator calls,
  \<^verbatim>\<open>json.loads\<close> and \<^verbatim>\<open>str.format\<close>, are parameters: each returns or raises.
\<close>

record field =
  data :: "string option"
  gettext :: "string \<Rightarrow> string"

record ValidJson =
  message :: "string option"

record 'j python_library =
  json_loads :: "string \<Rightarrow> exn + 'j"
  str_format :: "string \<Rightarrow> string \<Rightarrow> exn + string"

text \<open>\<^verbatim>\<open>self.message or f"JSON Validation Error: {ex}"\<close>: \<^verbatim>\<open>None\<close> and \<^verbatim>\<open>''\<close> are falsy.\<close>

definition message_or_default :: "ValidJson \<Rightarrow> string \<Rightarrow> string" where
  "message_or_default self ex_str =
     (case message self of
        None \<Rightarrow> ''JSON Validation Error: '' @ ex_str
      | Some m \<Rightarrow> if m = [] then ''JSON Validation Error: '' @ ex_str else m)"

fun is_JSONDecodeError :: "exn \<Rightarrow> bool" where
  "is_JSONDecodeError (Exception c m) = (c = ''JSONDecodeError'')"
| "is_JSONDecodeError (BaseException c m) = False"

fun exn_str :: "exn \<Rightarrow> string" where
  "exn_str (Exception c m) = m"
| "exn_str (BaseException c m) = m"

definition ValidJson_call :: "'j python_library \<Rightarrow> ValidJson \<Rightarrow> field \<Rightarrow> exn + unit" where
  "ValidJson_call lib self fld =
     (case data fld of
        None \<Rightarrow> Inr ()
      | Some text \<Rightarrow>
          if text = [] then Inr ()
          else
            (case json_loads lib text of
               Inr j \<Rightarrow> Inr ()
             | Inl ex \<Rightarrow>
                 if is_JSONDecodeError ex then
                   (case str_format lib (message_or_default self (exn_str ex)) text of
                      Inl e \<Rightarrow> Inl e
                    | Inr formatted \<Rightarrow>
                        Inl (Exception ''ValidationError'' (gettext fld formatted)))
                 else Inl ex))"

section \<open>Sample databases, blocks and operations\<close>

text \<open>
  Concrete inputs for the examples that follow each theorem: a database on which every
  call returns, variants on which one call raises or the dialect differs, blocks for the
  two \<^verbatim>\<open>with\<close> statements, and two operations to decorate.
\<close>

definition fresh_world :: world where
  "fresh_world = \<lparr>opened = 0, trace = []\<rparr>"

definition healthy_db :: db where
  "healthy_db =
     \<lparr>commit_result = (\<lambda>s. None), rollback_result = (\<lambda>s. None),
      close_result = (\<lambda>s. None), execute_result = (\<lambda>s stmt. Inr (Some 1)),
      dialect_name = ''postgresql'', server_version_info = [13, 4]\<rparr>"

definition failing_commit_db :: db where
  "failing_commit_db =
     healthy_db\<lparr>commit_result :=
       (\<lambda>s. Some (Exception ''IntegrityError'' ''duplicate key''))\<rparr>"

definition failing_rollback_db :: db where
  "failing_rollback_db =
     healthy_db\<lparr>rollback_result :=
       (\<lambda>s. Some (Exception ''OperationalError'' ''server has gone away''))\<rparr>"

definition failing_close_db :: db where
  "failing_close_db =
     healthy_db\<lparr>close_result :=
       (\<lambda>s. Some (Exception ''OperationalError'' ''connection reset''))\<rparr>"

text \<open>A database on which one release statement raises and every other statement returns.\<close>

definition failing_unlock_db :: db where
  "failing_unlock_db =
     healthy_db\<lparr>execute_result := (\<lambda>s stmt.
       if stmt = ''select PG_ADVISORY_UNLOCK(42);''
       then Inl (Exception ''OperationalError'' ''release failed'')
       else Inr None)\<rparr>"

definition failing_release_mysql_db :: db where
  "failing_release_mysql_db =
     healthy_db\<lparr>execute_result := (\<lambda>s stmt.
                  if stmt = ''select RELEASE_LOCK('upgrade');''
                  then Inl (Exception ''OperationalError'' ''release failed'')
                  else Inr (Some 1)),
                dialect_name := ''mysql'', server_version_info := [5, 6]\<rparr>"

definition old_mysql_db :: db where
  "old_mysql_db = healthy_db\<lparr>dialect_name := ''mysql'', server_version_info := [5, 5, 62]\<rparr>"

definition mssql_db :: db where
  "mssql_db = healthy_db\<lparr>dialect_name := ''mssql'', server_version_info := [15, 0]\<rparr>"

text \<open>
  MySQL's \<^verbatim>\<open>GET_LOCK\<close> returns 1 when the lock is granted and 0 when the timeout
  elapses first; on \<open>timed_out_mysql_db\<close> every statement returns 0.
\<close>

definition timed_out_mysql_db :: db where
  "timed_out_mysql_db =
     healthy_db\<lparr>execute_result := (\<lambda>s stmt. Inr (Some 0)),
                dialect_name := ''mysql'', server_version_info := [8, 0, 21]\<rparr>"

definition unreachable_mysql_db :: db where
  "unreachable_mysql_db =
     healthy_db\<lparr>execute_result :=
                  (\<lambda>s stmt. Inl (Exception ''OperationalError'' ''Lost connection'')),
                dialect_name := ''mysql'', server_version_info := [8, 0, 21]\<rparr>"

definition returning_block :: "nat \<Rightarrow> world \<Rightarrow> pyval outcome" where
  "returning_block s w = (Inr (PInt 7), w)"

definition raising_block :: "nat \<Rightarrow> world \<Rightarrow> pyval outcome" where
  "raising_block s w = (Inl (Exception ''ValueError'' ''bad''), w)"

definition interrupted_block :: "nat \<Rightarrow> world \<Rightarrow> pyval outcome" where
  "interrupted_block s w = (Inl (BaseException ''KeyboardInterrupt'' []), w)"

definition migration_block :: "world \<Rightarrow> pyval outcome" where
  "migration_block w =
     (Inr (PStr ''upgraded''), emit (EvExecute 0 ''alter table dag add column x int;'') w)"

definition failing_migration_block :: "world \<Rightarrow> pyval outcome" where
  "failing_migration_block w =
     (Inl (Exception ''RuntimeError'' ''migration failed''),
      emit (EvExecute 0 ''alter table dag add column x int;'') w)"

text \<open>
  The binding of the two calls \<^verbatim>\<open>create_global_lock()\<close> and
  \<^verbatim>\<open>create_global_lock(session=v)\<close>: the other three parameters take their defaults.
\<close>

definition default_bind :: "pyval list \<Rightarrow> (string \<times> pyval) list \<Rightarrow> exn + lock_arguments" where
  "default_bind args kwargs =
     (if args = [] \<and> (kwargs = [] \<or> map fst kwargs = [''session''])
      then Inr \<lparr>bound_session = (case map_of kwargs ''session'' of Some v \<Rightarrow> v | None \<Rightarrow> PNone),
                bound_pg_lock_id = 1, bound_lock_name = ''init'',
                bound_mysql_lock_timeout = 1800\<rparr>
      else Inl (Exception ''TypeError'' ''call outside the two sample calls''))"

text \<open>
  \<^verbatim>\<open>def count_rows(table, session=None)\<close> runs one query on its session, and raises a
  \<^verbatim>\<open>TypeError\<close> when it is given anything else;
  \<open>session_parameter\<close> is the value its parameter \<^verbatim>\<open>session\<close> is bound to.
  \<^verbatim>\<open>def sync(self, dag_id)\<close> of a class \<^verbatim>\<open>DagBag\<close> has no such parameter.
\<close>

definition session_parameter :: "pyval list \<Rightarrow> (string \<times> pyval) list \<Rightarrow> pyval" where
  "session_parameter args kwargs =
     (if 1 < length args then args ! 1
      else (case map_of kwargs ''session'' of Some v \<Rightarrow> v | None \<Rightarrow> PNone))"

definition count_rows :: "pyval pyfunc" where
  "count_rows =
     \<lparr>qualname = ''count_rows'', parameters = [''table'', ''session''],
      body = (\<lambda>args kwargs w.
        (case session_parameter args kwargs of
           PSession s \<Rightarrow> (Inr (PInt 3), emit (EvExecute s ''select count(*) from dag;'') w)
         | other \<Rightarrow> (Inl (Exception ''TypeError'' ''count_rows needs a session''), w)))\<rparr>"



definition no_session_func :: "pyval pyfunc" where
  "no_session_func =
     \<lparr>qualname = ''DagBag.sync'', parameters = [''self'', ''dag_id''],
      body = (\<lambda>args kwargs w. (Inr PNone, w))\<rparr>"

text \<open>
  A library for the examples of the validator: its \<^verbatim>\<open>loads\<close> accepts two documents and
  rejects any other text the way \<^verbatim>\<open>json.loads\<close> rejects a text that starts no JSON value;
  its \<^verbatim>\<open>format\<close> returns a template without braces as it is.
\<close>

definition sample_library :: "unit python_library" where
  "sample_library =
     \<lparr>json_loads = (\<lambda>text.
        if text = ''{}'' \<or> text = ''[1, 2]'' then Inr ()
        else Inl (Exception ''JSONDecodeError'' ''Expecting value: line 1 column 1 (char 0)'')),
      str_format = (\<lambda>template arg.
        if CHR ''{'' \<in> set template \<or> CHR ''}'' \<in> set template
        then Inl (Exception ''ValueError'' ''unsupported format string'')
        else Inr template)\<rparr>"

definition default_validator :: ValidJson where
  "default_validator = \<lparr>message = None\<rparr>"

definition text_field :: "string \<Rightarrow> field" where
  "text_field text = \<lparr>data = Some text, gettext = id\<rparr>"

definition empty_field :: field where
  "empty_field = \<lparr>data = None, gettext = id\<rparr>"

section \<open>Auxiliary facts\<close>

lemmas create_session_defs =
  create_session_def settings_Session_def try_body_def finally_close_def except_Exception_def
  session_commit_def session_rollback_def session_close_def emit_def

lemmas lock_defs =
  create_global_lock_def lock_entry_def lock_exit_def if_execute_def and_then_def
  connection_execute_def

lemmas sample_defs =
  fresh_world_def healthy_db_def failing_commit_db_def failing_rollback_db_def
  failing_close_db_def failing_unlock_db_def failing_release_mysql_db_def old_mysql_db_def mssql_db_def timed_out_mysql_db_def unreachable_mysql_db_def
  returning_block_def raising_block_def interrupted_block_def
  migration_block_def failing_migration_block_def

text \<open>\<open>tuple_index\<close> returns the first position of the name, and none when it is absent.\<close>

lemma tuple_index_Some:
  "tuple_index xs x = Some i \<Longrightarrow> i < length xs \<and> xs ! i = x \<and> x \<notin> set (take i xs)"
  by (induction xs arbitrary: i) (auto split: if_splits)

lemma tuple_index_None: "tuple_index xs x = None \<longleftrightarrow> x \<notin> set xs"
  by (induction xs) auto

text \<open>A version with a major and a minor number is at least \<^verbatim>\<open>(5, 6)\<close> in the usual sense.\<close>

lemma tuple_ge_5_6:
  "tuple_ge (major # minor # rest) [5, 6] \<longleftrightarrow> 5 < major \<or> (major = 5 \<and> 6 \<le> minor)"
  by auto

text \<open>
  \<open>str_int\<close> writes distinct integers differently, so a lock statement determines the id
  it was built from.
\<close>

lemma digit_value_digit_char: "n < 10 \<Longrightarrow> digit_value (digit_char n) = n"
  by (simp add: digit_value_def digit_char_def)

lemma nat_of_digits_snoc: "nat_of_digits (cs @ [c]) = 10 * nat_of_digits cs + digit_value c"
  by (simp add: nat_of_digits_def)

lemma nat_of_digits_str_nat: "nat_of_digits (str_nat n) = n"
proof (induction n rule: str_nat.induct)
  case (1 n)
  show ?case
  proof (cases "n < 10")
    case True
    then show ?thesis
      by (subst str_nat.simps) (simp add: nat_of_digits_def digit_value_digit_char)
  next
    case False
    then have "nat_of_digits (str_nat (n div 10)) = n div 10"
      using "1.IH" by simp
    with False show ?thesis
      by (subst str_nat.simps) (simp add: nat_of_digits_snoc digit_value_digit_char)
  qed
qed

lemma str_nat_inject: "str_nat m = str_nat n \<Longrightarrow> m = n"
  by (metis nat_of_digits_str_nat)

lemma digit_char_not_minus: "n < 10 \<Longrightarrow> digit_char n \<noteq> CHR ''-''"
proof
  assume "n < 10" and "digit_char n = CHR ''-''"
  then have "(of_char (digit_char n) :: nat) = of_char CHR ''-''"
    by simp
  with \<open>n < 10\<close> show False
    by (simp add: digit_char_def)
qed

lemma hd_str_nat: "str_nat n \<noteq> [] \<and> hd (str_nat n) \<noteq> CHR ''-''"
proof (induction n rule: str_nat.induct)
  case (1 n)
  show ?case
  proof (cases "n < 10")
    case True
    then show ?thesis
      by (subst (1 2) str_nat.simps) (simp add: digit_char_not_minus)
  next
    case False
    then show ?thesis
      using "1.IH" by (subst (1 2) str_nat.simps) simp
  qed
qed

lemma str_int_inject: "str_int i = str_int j \<Longrightarrow> i = j"
proof -
  assume eq: "str_int i = str_int j"
  have no_minus: "CHR ''-'' # cs \<noteq> str_nat n" for cs n
    using hd_str_nat [of n] by (cases "str_nat n") auto
  show "i = j"
  proof (cases "i < 0"; cases "j < 0")
    assume "i < 0" "j < 0"
    with eq have "nat (- i) = nat (- j)"
      by (simp add: str_int_def str_nat_inject)
    with \<open>i < 0\<close> \<open>j < 0\<close> show ?thesis by simp
  next
    assume "i < 0" "\<not> j < 0"
    with eq no_minus show ?thesis by (simp add: str_int_def)
  next
    assume "\<not> i < 0" "j < 0"
    with eq no_minus [of "str_nat (nat (- j))" "nat i"] show ?thesis by (simp add: str_int_def)
  next
    assume "\<not> i < 0" "\<not> j < 0"
    with eq have "nat i = nat j"
      by (simp add: str_int_def str_nat_inject)
    with \<open>\<not> i < 0\<close> \<open>\<not> j < 0\<close> show ?thesis by simp
  qed
qed

lemma pg_advisory_lock_inject: "pg_advisory_lock i = pg_advisory_lock j \<Longrightarrow> i = j"
  by (simp add: pg_advisory_lock_def str_int_inject)

lemma pg_advisory_unlock_inject: "pg_advisory_unlock i = pg_advisory_unlock j \<Longrightarrow> i = j"
  by (simp add: pg_advisory_unlock_def str_int_inject)

text \<open>The statements the default arguments produce.\<close>

lemma statements_of_defaults:
  "pg_advisory_lock 1 = ''select PG_ADVISORY_LOCK(1);''"
  "pg_advisory_unlock 1 = ''select PG_ADVISORY_UNLOCK(1);''"
  "mysql_get_lock ''init'' 1 = ''select GET_LOCK('init',1);''"
  "mysql_get_lock ''init'' 1800 = ''select GET_LOCK('init',1800);''"
  "mysql_release_lock ''init'' = ''select RELEASE_LOCK('init');''"
  by code_simp+

text \<open>The decimals of the examples with other arguments.\<close>

lemma statements_of_samples:
  "str_int 42 = ''42''"
  "str_int 30 = ''30''"
  "str_int (- 7) = ''-7''"
  by code_simp+


section \<open>The session scope\<close>

text \<open>
  Claim C1, as amended. Let \<open>s\<close> be the session that \<open>create_session\<close> constructs; on
  every path \<open>s\<close> is closed, as the last call.
  \<^item> The block completes with a value and \<^verbatim>\<open>commit\<close> returns: commit, then close, no
    rollback; the caller gets the value.
  \<^item> The block completes and \<^verbatim>\<open>commit\<close> raises \<open>C\<close>: commit, rollback, close when \<open>C\<close>
    is an instance of \<^verbatim>\<open>Exception\<close>, and commit, close otherwise; the caller observes
    \<open>C\<close>.
  \<^item> The block raises \<open>E\<close>, an instance of \<^verbatim>\<open>Exception\<close>: rollback, then close; the
    caller observes \<open>E\<close> itself.
  \<^item> The block raises any other \<open>E\<close> (\<^verbatim>\<open>KeyboardInterrupt\<close>): close alone, no rollback;
    the caller observes \<open>E\<close> itself.

  What the caller observes is stated for \<^verbatim>\<open>rollback\<close> (where it is called) and
  \<^verbatim>\<open>close\<close> returning: an exception of \<^verbatim>\<open>rollback\<close> takes the place of \<open>C\<close> or \<open>E\<close>,
  and an exception of \<^verbatim>\<open>close\<close> takes the place of everything. In each case the trace
  the block left is extended by exactly the calls listed.
\<close>

theorem create_session_commit_or_rollback:
  assumes "block (opened w)
             (w\<lparr>opened := Suc (opened w), trace := trace w @ [EvSession (opened w)]\<rparr>) = (r, w2)"
  shows "(\<forall>v. r = Inr v \<and> commit_result d (opened w) = None \<longrightarrow>
            snd (create_session d block w) =
              w2\<lparr>trace := trace w2 @ [EvCommit (opened w), EvClose (opened w)]\<rparr>
            \<and> (close_result d (opened w) = None \<longrightarrow>
                 fst (create_session d block w) = Inr v))
       \<and> (\<forall>v C. r = Inr v \<and> commit_result d (opened w) = Some C \<and> is_Exception C \<longrightarrow>
            snd (create_session d block w) =
              w2\<lparr>trace := trace w2 @
                   [EvCommit (opened w), EvRollback (opened w), EvClose (opened w)]\<rparr>
            \<and> (rollback_result d (opened w) = None \<and> close_result d (opened w) = None \<longrightarrow>
                 fst (create_session d block w) = Inl C)
            \<and> (\<forall>F. rollback_result d (opened w) = Some F \<and> close_result d (opened w) = None \<longrightarrow>
                 fst (create_session d block w) = Inl F))
       \<and> (\<forall>v C. r = Inr v \<and> commit_result d (opened w) = Some C \<and> \<not> is_Exception C \<longrightarrow>
            snd (create_session d block w) =
              w2\<lparr>trace := trace w2 @ [EvCommit (opened w), EvClose (opened w)]\<rparr>
            \<and> (close_result d (opened w) = None \<longrightarrow>
                 fst (create_session d block w) = Inl C))
       \<and> (\<forall>E. r = Inl E \<and> is_Exception E \<longrightarrow>
            snd (create_session d block w) =
              w2\<lparr>trace := trace w2 @ [EvRollback (opened w), EvClose (opened w)]\<rparr>
            \<and> (rollback_result d (opened w) = None \<and> close_result d (opened w) = None \<longrightarrow>
                 fst (create_session d block w) = Inl E)
            \<and> (\<forall>F. rollback_result d (opened w) = Some F \<and> close_result d (opened w) = None \<longrightarrow>
                 fst (create_session d block w) = Inl F))
       \<and> (\<forall>E. r = Inl E \<and> \<not> is_Exception E \<longrightarrow>
            snd (create_session d block w) =
              w2\<lparr>trace := trace w2 @ [EvClose (opened w)]\<rparr>
            \<and> (close_result d (opened w) = None \<longrightarrow>
                 fst (create_session d block w) = Inl E))
       \<and> (\<forall>G. close_result d (opened w) = Some G \<longrightarrow>
            fst (create_session d block w) = Inl G)"
  using assms
  by (cases r; cases "commit_result d (opened w)"; cases "rollback_result d (opened w)";
      cases "close_result d (opened w)")
     (simp_all add: create_session_defs)

text \<open>
  The two scenarios of the specification (a block that returns, a block that raises
  \<^verbatim>\<open>ValueError("bad")\<close>), a \<^verbatim>\<open>commit\<close> that raises, a block interrupted from the
  keyboard, and a \<^verbatim>\<open>close\<close> that raises.
\<close>

theorem create_session_commit_or_rollback_witness:
  "create_session healthy_db returning_block fresh_world =
     (Inr (PInt 7), \<lparr>opened = 1, trace = [EvSession 0, EvCommit 0, EvClose 0]\<rparr>)
   \<and> create_session healthy_db raising_block fresh_world =
     (Inl (Exception ''ValueError'' ''bad''),
      \<lparr>opened = 1, trace = [EvSession 0, EvRollback 0, EvClose 0]\<rparr>)
   \<and> create_session failing_commit_db returning_block fresh_world =
     (Inl (Exception ''IntegrityError'' ''duplicate key''),
      \<lparr>opened = 1, trace = [EvSession 0, EvCommit 0, EvRollback 0, EvClose 0]\<rparr>)
   \<and> create_session healthy_db interrupted_block fresh_world =
     (Inl (BaseException ''KeyboardInterrupt'' []),
      \<lparr>opened = 1, trace = [EvSession 0, EvClose 0]\<rparr>)
   \<and> create_session failing_close_db raising_block fresh_world =
     (Inl (Exception ''OperationalError'' ''connection reset''),
      \<lparr>opened = 1, trace = [EvSession 0, EvRollback 0, EvClose 0]\<rparr>)"
  using
    create_session_commit_or_rollback [of returning_block fresh_world "Inr (PInt 7)"
      "\<lparr>opened = 1, trace = [EvSession 0]\<rparr>" healthy_db]
    create_session_commit_or_rollback [of raising_block fresh_world
      "Inl (Exception ''ValueError'' ''bad'')" "\<lparr>opened = 1, trace = [EvSession 0]\<rparr>" healthy_db]
    create_session_commit_or_rollback [of returning_block fresh_world "Inr (PInt 7)"
      "\<lparr>opened = 1, trace = [EvSession 0]\<rparr>" failing_commit_db]
    create_session_commit_or_rollback [of interrupted_block fresh_world
      "Inl (BaseException ''KeyboardInterrupt'' [])" "\<lparr>opened = 1, trace = [EvSession 0]\<rparr>"
      healthy_db]
    create_session_commit_or_rollback [of raising_block fresh_world
      "Inl (Exception ''ValueError'' ''bad'')" "\<lparr>opened = 1, trace = [EvSession 0]\<rparr>"
      failing_close_db]
  by (simp add: sample_defs prod_eq_iff)

text \<open>
  Claim C1 as stated fails twice. \<^verbatim>\<open>commit\<close> stands inside the \<^verbatim>\<open>try\<close>: when the block
  completes and \<^verbatim>\<open>commit\<close> raises, the session is rolled back, and the caller observes
  the exception of \<^verbatim>\<open>commit\<close>. And the handler is \<^verbatim>\<open>except Exception\<close>: when the block
  raises \<^verbatim>\<open>KeyboardInterrupt\<close>, the session is closed without a rollback.
\<close>

theorem create_session_counterexample:
  "returning_block 0 \<lparr>opened = 1, trace = [EvSession 0]\<rparr> =
     (Inr (PInt 7), \<lparr>opened = 1, trace = [EvSession 0]\<rparr>)
   \<and> create_session failing_commit_db returning_block fresh_world =
     (Inl (Exception ''IntegrityError'' ''duplicate key''),
      \<lparr>opened = 1, trace = [EvSession 0, EvCommit 0, EvRollback 0, EvClose 0]\<rparr>)
   \<and> create_session healthy_db interrupted_block fresh_world =
     (Inl (BaseException ''KeyboardInterrupt'' []),
      \<lparr>opened = 1, trace = [EvSession 0, EvClose 0]\<rparr>)"
  by (simp add: create_session_defs sample_defs)

text \<open>
  Claim C8, as amended. If the enclosed block raises an instance \<open>E\<close> of \<^verbatim>\<open>Exception\<close>
  and the rollback that follows raises \<open>F\<close>, the session is still closed, and the caller
  observes \<open>F\<close>, or the exception of \<^verbatim>\<open>close\<close> when \<^verbatim>\<open>close\<close> raises as well; it
  does not observe \<open>E\<close>, which the exception raised inside the handler replaces.
\<close>

theorem create_session_rollback_failure:
  assumes "block (opened w)
             (w\<lparr>opened := Suc (opened w), trace := trace w @ [EvSession (opened w)]\<rparr>) =
             (Inl E, w2)"
      and "is_Exception E"
      and "rollback_result d (opened w) = Some F"
  shows "create_session d block w =
           (Inl (case close_result d (opened w) of None \<Rightarrow> F | Some G \<Rightarrow> G),
            w2\<lparr>trace := trace w2 @ [EvRollback (opened w), EvClose (opened w)]\<rparr>)"
  using assms by (simp add: create_session_defs split: option.splits)

theorem create_session_rollback_failure_witness:
  "create_session failing_rollback_db raising_block fresh_world =
     (Inl (Exception ''OperationalError'' ''server has gone away''),
      \<lparr>opened = 1, trace = [EvSession 0, EvRollback 0, EvClose 0]\<rparr>)"
  using create_session_rollback_failure [of raising_block fresh_world
      "Exception ''ValueError'' ''bad''" "\<lparr>opened = 1, trace = [EvSession 0]\<rparr>"
      failing_rollback_db "Exception ''OperationalError'' ''server has gone away''"]
  by (simp add: sample_defs)

text \<open>
  Claim C8 as stated fails: the block raises \<^verbatim>\<open>ValueError("bad")\<close>, the rollback raises
  \<^verbatim>\<open>OperationalError\<close>, and what the caller observes is the \<^verbatim>\<open>OperationalError\<close>.
\<close>

theorem create_session_rollback_failure_counterexample:
  "raising_block 0 \<lparr>opened = 1, trace = [EvSession 0]\<rparr> =
     (Inl (Exception ''ValueError'' ''bad''), \<lparr>opened = 1, trace = [EvSession 0]\<rparr>)
   \<and> rollback_result failing_rollback_db 0 =
       Some (Exception ''OperationalError'' ''server has gone away'')
   \<and> fst (create_session failing_rollback_db raising_block fresh_world) =
       Inl (Exception ''OperationalError'' ''server has gone away'')
   \<and> fst (create_session failing_rollback_db raising_block fresh_world) \<noteq>
       Inl (Exception ''ValueError'' ''bad'')"
  by (simp add: create_session_defs sample_defs)

section \<open>The decorator\<close>

text \<open>
  Claim C4. Decorating an operation whose signature has no parameter named
  \<^verbatim>\<open>session\<close> raises a \<^verbatim>\<open>ValueError\<close> whose message names the operation. The error
  is the result of \<open>provide_session\<close> itself: no wrapper is returned, so nothing is left
  to call, and neither the arguments of a call nor the world take part.
\<close>

theorem provide_session_no_session_parameter:
  assumes "''session'' \<notin> set (parameters func)"
  shows "provide_session d func =
           Inl (Exception ''ValueError''
                  (''Function '' @ qualname func @ '' has no `session` argument''))"
  using assms by (simp add: provide_session_def find_session_idx_def tuple_index_None [THEN iffD2])

theorem provide_session_no_session_parameter_witness:
  "provide_session healthy_db no_session_func =
     Inl (Exception ''ValueError'' ''Function DagBag.sync has no `session` argument'')"
  using provide_session_no_session_parameter [of no_session_func healthy_db]
  by (simp add: no_session_func_def)

text \<open>
  With a parameter named \<^verbatim>\<open>session\<close> in the signature, decorating returns the wrapper,
  which holds the first position of that name.
\<close>

lemma provide_session_returns:
  assumes "''session'' \<in> set (parameters func)"
  shows "\<exists>i. tuple_index (parameters func) ''session'' = Some i
             \<and> provide_session d func = Inr (wrapper d func i)"
proof (cases "tuple_index (parameters func) ''session''")
  case None
  with assms show ?thesis
    by (simp add: tuple_index_None)
next
  case (Some i)
  then show ?thesis
    by (simp add: provide_session_def find_session_idx_def)
qed

text \<open>
  Claim C2. Let \<open>wrapped\<close> be the decorated operation and \<open>session_args_idx\<close> the position
  of \<^verbatim>\<open>session\<close> in the signature. A call that supplies a session by the keyword
  \<^verbatim>\<open>session\<close>, or positionally (it has more than \<open>session_args_idx\<close> positional
  arguments), is the call of the operation itself on the same arguments: same result, same
  world, hence no session constructed, committed, rolled back or closed by the wrapper.
\<close>

theorem provide_session_supplied:
  assumes "provide_session d func = Inr wrapped"
      and "find_session_idx func = Inr session_args_idx"
      and "''session'' \<in> set (map fst kwargs) \<or> session_args_idx < length args"
  shows "wrapped args kwargs w = body func args kwargs w"
  using assms by (force simp: provide_session_def wrapper_def)

text \<open>\<^verbatim>\<open>count_rows("dag", session=s5)\<close> and \<^verbatim>\<open>count_rows("dag", s5)\<close>.\<close>

theorem provide_session_supplied_witness:
  "wrapper healthy_db count_rows 1 [PStr ''dag''] [(''session'', PSession 5)] fresh_world =
     (Inr (PInt 3), \<lparr>opened = 0, trace = [EvExecute 5 ''select count(*) from dag;'']\<rparr>)
   \<and> wrapper healthy_db count_rows 1 [PStr ''dag'', PSession 5] [] fresh_world =
     (Inr (PInt 3), \<lparr>opened = 0, trace = [EvExecute 5 ''select count(*) from dag;'']\<rparr>)"
  using
    provide_session_supplied [of healthy_db count_rows "wrapper healthy_db count_rows 1" 1
      "[(''session'', PSession 5)]" "[PStr ''dag'']" fresh_world]
    provide_session_supplied [of healthy_db count_rows "wrapper healthy_db count_rows 1" 1
      "[]" "[PStr ''dag'', PSession 5]" fresh_world]
  by (simp add: provide_session_def find_session_idx_def count_rows_def session_parameter_def
      emit_def fresh_world_def)

text \<open>
  Claim C10. A call that passes \<^verbatim>\<open>None\<close> for the session, by the keyword \<^verbatim>\<open>session\<close>
  or positionally at \<open>session_args_idx\<close>, counts as supplying one: it is the call of the
  operation itself on the same arguments, \<^verbatim>\<open>None\<close> included, and the wrapper constructs no
  session.
\<close>

theorem provide_session_explicit_None:
  assumes "provide_session d func = Inr wrapped"
      and "find_session_idx func = Inr session_args_idx"
      and "map_of kwargs ''session'' = Some PNone
           \<or> (session_args_idx < length args \<and> args ! session_args_idx = PNone)"
  shows "wrapped args kwargs w = body func args kwargs w"
  using assms by (force simp: provide_session_def wrapper_def dest: map_of_SomeD)

text \<open>
  \<^verbatim>\<open>count_rows("dag", session=None)\<close> and \<^verbatim>\<open>count_rows("dag", None)\<close>: the operation
  receives \<^verbatim>\<open>None\<close> and fails on it; the world is untouched.
\<close>

theorem provide_session_explicit_None_witness:
  "wrapper healthy_db count_rows 1 [PStr ''dag''] [(''session'', PNone)] fresh_world =
     (Inl (Exception ''TypeError'' ''count_rows needs a session''),
      \<lparr>opened = 0, trace = []\<rparr>)
   \<and> wrapper healthy_db count_rows 1 [PStr ''dag'', PNone] [] fresh_world =
     (Inl (Exception ''TypeError'' ''count_rows needs a session''),
      \<lparr>opened = 0, trace = []\<rparr>)"
  using
    provide_session_explicit_None [of healthy_db count_rows "wrapper healthy_db count_rows 1" 1
      "[(''session'', PNone)]" "[PStr ''dag'']" fresh_world]
    provide_session_explicit_None [of healthy_db count_rows "wrapper healthy_db count_rows 1" 1
      "[]" "[PStr ''dag'', PNone]" fresh_world]
  by (simp add: provide_session_def find_session_idx_def count_rows_def session_parameter_def
      fresh_world_def)




section \<open>The global lock\<close>

text \<open>
  Claim C5. On the \<^verbatim>\<open>postgresql\<close> dialect, with session \<open>s\<close>: the acquire statement is
  \<^verbatim>\<open>select PG_ADVISORY_LOCK(id);\<close> and the release statement
  \<^verbatim>\<open>select PG_ADVISORY_UNLOCK(id);\<close>, where \<^verbatim>\<open>id\<close> is the given integer in decimal, which
  no other integer shares. The block starts in the world to which exactly one statement has
  been added, the acquire statement; whatever the block does, returning or raising, exactly
  one statement is added to the world it leaves, the release statement with the same id.
  When the release returns, the caller gets the outcome of the block; when it raises, the
  caller observes that exception. When the acquire statement itself raises, the block is
  skipped and the release is still issued.
\<close>

theorem create_global_lock_postgresql:
  assumes "dialect_name d = ''postgresql''"
  shows "pg_advisory_lock pg_lock_id = ''select PG_ADVISORY_LOCK('' @ str_int pg_lock_id @ '');''
       \<and> pg_advisory_unlock pg_lock_id =
           ''select PG_ADVISORY_UNLOCK('' @ str_int pg_lock_id @ '');''
       \<and> (\<forall>j. str_int j = str_int pg_lock_id \<longrightarrow> j = pg_lock_id)
       \<and> (\<forall>x. execute_result d s (pg_advisory_lock pg_lock_id) = Inr x \<longrightarrow>
            snd (create_global_lock d (PSession s) pg_lock_id lock_name mysql_lock_timeout block w) =
              emit (EvExecute s (pg_advisory_unlock pg_lock_id))
                (snd (block (emit (EvExecute s (pg_advisory_lock pg_lock_id)) w)))
            \<and> (\<forall>y. execute_result d s (pg_advisory_unlock pg_lock_id) = Inr y \<longrightarrow>
                 fst (create_global_lock d (PSession s) pg_lock_id lock_name mysql_lock_timeout block w) =
                   fst (block (emit (EvExecute s (pg_advisory_lock pg_lock_id)) w)))
            \<and> (\<forall>R. execute_result d s (pg_advisory_unlock pg_lock_id) = Inl R \<longrightarrow>
                 fst (create_global_lock d (PSession s) pg_lock_id lock_name mysql_lock_timeout block w) =
                   Inl R))
       \<and> (\<forall>e. execute_result d s (pg_advisory_lock pg_lock_id) = Inl e \<longrightarrow>
            snd (create_global_lock d (PSession s) pg_lock_id lock_name mysql_lock_timeout block w) =
              emit (EvExecute s (pg_advisory_unlock pg_lock_id))
                (emit (EvExecute s (pg_advisory_lock pg_lock_id)) w)
            \<and> (\<forall>y. execute_result d s (pg_advisory_unlock pg_lock_id) = Inr y \<longrightarrow>
                 fst (create_global_lock d (PSession s) pg_lock_id lock_name mysql_lock_timeout block w) =
                   Inl e)
            \<and> (\<forall>R. execute_result d s (pg_advisory_unlock pg_lock_id) = Inl R \<longrightarrow>
                 fst (create_global_lock d (PSession s) pg_lock_id lock_name mysql_lock_timeout block w) =
                   Inl R))"
proof -
  have "pg_advisory_lock pg_lock_id = ''select PG_ADVISORY_LOCK('' @ str_int pg_lock_id @ '');''"
    by (simp add: pg_advisory_lock_def)
  moreover have "pg_advisory_unlock pg_lock_id =
      ''select PG_ADVISORY_UNLOCK('' @ str_int pg_lock_id @ '');''"
    by (simp add: pg_advisory_unlock_def)
  moreover have "\<forall>j. str_int j = str_int pg_lock_id \<longrightarrow> j = pg_lock_id"
    by (simp add: str_int_inject)
  moreover have "\<forall>x. execute_result d s (pg_advisory_lock pg_lock_id) = Inr x \<longrightarrow>
            snd (create_global_lock d (PSession s) pg_lock_id lock_name mysql_lock_timeout block w) =
              emit (EvExecute s (pg_advisory_unlock pg_lock_id))
                (snd (block (emit (EvExecute s (pg_advisory_lock pg_lock_id)) w)))
            \<and> (\<forall>y. execute_result d s (pg_advisory_unlock pg_lock_id) = Inr y \<longrightarrow>
                 fst (create_global_lock d (PSession s) pg_lock_id lock_name mysql_lock_timeout block w) =
                   fst (block (emit (EvExecute s (pg_advisory_lock pg_lock_id)) w)))
            \<and> (\<forall>R. execute_result d s (pg_advisory_unlock pg_lock_id) = Inl R \<longrightarrow>
                 fst (create_global_lock d (PSession s) pg_lock_id lock_name mysql_lock_timeout block w) =
                   Inl R)"
    using assms by (simp add: lock_defs split: prod.splits sum.splits option.splits)
  moreover have "\<forall>e. execute_result d s (pg_advisory_lock pg_lock_id) = Inl e \<longrightarrow>
            snd (create_global_lock d (PSession s) pg_lock_id lock_name mysql_lock_timeout block w) =
              emit (EvExecute s (pg_advisory_unlock pg_lock_id))
                (emit (EvExecute s (pg_advisory_lock pg_lock_id)) w)
            \<and> (\<forall>y. execute_result d s (pg_advisory_unlock pg_lock_id) = Inr y \<longrightarrow>
                 fst (create_global_lock d (PSession s) pg_lock_id lock_name mysql_lock_timeout block w) =
                   Inl e)
            \<and> (\<forall>R. execute_result d s (pg_advisory_unlock pg_lock_id) = Inl R \<longrightarrow>
                 fst (create_global_lock d (PSession s) pg_lock_id lock_name mysql_lock_timeout block w) =
                   Inl R)"
    using assms by (simp add: lock_defs split: prod.splits sum.splits option.splits)
  ultimately show ?thesis
    by blast
qed

text \<open>
  A block that returns under id 42, a block that raises under id -7 on another session,
  and a release that raises.
\<close>

theorem create_global_lock_postgresql_witness:
  "create_global_lock healthy_db (PSession 0) 42 ''init'' 1800 migration_block fresh_world =
     (Inr (PStr ''upgraded''),
      \<lparr>opened = 0,
         trace = [EvExecute 0 ''select PG_ADVISORY_LOCK(42);'',
                  EvExecute 0 ''alter table dag add column x int;'',
                  EvExecute 0 ''select PG_ADVISORY_UNLOCK(42);'']\<rparr>)
   \<and> create_global_lock healthy_db (PSession 3) (- 7) ''init'' 1800 failing_migration_block
       fresh_world =
     (Inl (Exception ''RuntimeError'' ''migration failed''),
      \<lparr>opened = 0,
         trace = [EvExecute 3 ''select PG_ADVISORY_LOCK(-7);'',
                  EvExecute 0 ''alter table dag add column x int;'',
                  EvExecute 3 ''select PG_ADVISORY_UNLOCK(-7);'']\<rparr>)
   \<and> create_global_lock failing_unlock_db (PSession 0) 42 ''init'' 1800 migration_block
       fresh_world =
     (Inl (Exception ''OperationalError'' ''release failed''),
      \<lparr>opened = 0,
         trace = [EvExecute 0 ''select PG_ADVISORY_LOCK(42);'',
                  EvExecute 0 ''alter table dag add column x int;'',
                  EvExecute 0 ''select PG_ADVISORY_UNLOCK(42);'']\<rparr>)"
  using
    create_global_lock_postgresql [of healthy_db 42 0 "''init''" 1800 migration_block fresh_world]
    create_global_lock_postgresql [of healthy_db "- 7" 3 "''init''" 1800 failing_migration_block
      fresh_world]
    create_global_lock_postgresql [of failing_unlock_db 42 0 "''init''" 1800 migration_block
      fresh_world]
  by (simp add: sample_defs statements_of_samples emit_def prod_eq_iff)

text \<open>
  Claim C6, as amended. On the \<^verbatim>\<open>mysql\<close> dialect at version \<^verbatim>\<open>(5, 6)\<close> or above, with
  session \<open>s\<close>: exactly one statement \<^verbatim>\<open>select GET_LOCK('name',timeout);\<close>, with the given
  lock name and the given timeout in seconds, is issued before the block. The value it
  returns is not looked at: whenever the statement returns, with 1 (granted), 0 (timed out)
  or \<^verbatim>\<open>NULL\<close>, the block runs. The block is skipped only when the statement raises. In
  both cases exactly one statement \<^verbatim>\<open>select RELEASE_LOCK('name');\<close> is issued afterwards.
  When \<^verbatim>\<open>RELEASE_LOCK\<close> returns, the caller gets the outcome of the block, or observes
  the exception that \<^verbatim>\<open>GET_LOCK\<close> raised; when \<^verbatim>\<open>RELEASE_LOCK\<close> raises, the caller
  observes that exception instead.
\<close>

theorem create_global_lock_mysql:
  assumes "dialect_name d = ''mysql''"
      and "tuple_ge (server_version_info d) [5, 6]"
  shows "mysql_get_lock lock_name mysql_lock_timeout =
           ''select GET_LOCK('' @ [CHR 0x27] @ lock_name @ [CHR 0x27] @ '','' @
             str_int mysql_lock_timeout @ '');''
       \<and> mysql_release_lock lock_name =
           ''select RELEASE_LOCK('' @ [CHR 0x27] @ lock_name @ [CHR 0x27] @ '');''
       \<and> (\<forall>t. str_int t = str_int mysql_lock_timeout \<longrightarrow> t = mysql_lock_timeout)
       \<and> (\<forall>x. execute_result d s (mysql_get_lock lock_name mysql_lock_timeout) = Inr x \<longrightarrow>
            snd (create_global_lock d (PSession s) pg_lock_id lock_name mysql_lock_timeout block w) =
              emit (EvExecute s (mysql_release_lock lock_name))
                (snd (block (emit (EvExecute s (mysql_get_lock lock_name mysql_lock_timeout)) w)))
            \<and> (\<forall>y. execute_result d s (mysql_release_lock lock_name) = Inr y \<longrightarrow>
                 fst (create_global_lock d (PSession s) pg_lock_id lock_name mysql_lock_timeout block w) =
                   fst (block (emit (EvExecute s (mysql_get_lock lock_name mysql_lock_timeout)) w)))
            \<and> (\<forall>R. execute_result d s (mysql_release_lock lock_name) = Inl R \<longrightarrow>
                 fst (create_global_lock d (PSession s) pg_lock_id lock_name mysql_lock_timeout block w) =
                   Inl R))
       \<and> (\<forall>e. execute_result d s (mysql_get_lock lock_name mysql_lock_timeout) = Inl e \<longrightarrow>
            snd (create_global_lock d (PSession s) pg_lock_id lock_name mysql_lock_timeout block w) =
              emit (EvExecute s (mysql_release_lock lock_name))
                (emit (EvExecute s (mysql_get_lock lock_name mysql_lock_timeout)) w)
            \<and> (\<forall>y. execute_result d s (mysql_release_lock lock_name) = Inr y \<longrightarrow>
                 fst (create_global_lock d (PSession s) pg_lock_id lock_name mysql_lock_timeout block w) =
                   Inl e)
            \<and> (\<forall>R. execute_result d s (mysql_release_lock lock_name) = Inl R \<longrightarrow>
                 fst (create_global_lock d (PSession s) pg_lock_id lock_name mysql_lock_timeout block w) =
                   Inl R))"
proof -
  have "mysql_get_lock lock_name mysql_lock_timeout =
           ''select GET_LOCK('' @ [CHR 0x27] @ lock_name @ [CHR 0x27] @ '','' @
             str_int mysql_lock_timeout @ '');''"
    by (simp add: mysql_get_lock_def)
  moreover have "mysql_release_lock lock_name =
           ''select RELEASE_LOCK('' @ [CHR 0x27] @ lock_name @ [CHR 0x27] @ '');''"
    by (simp add: mysql_release_lock_def)
  moreover have "\<forall>t. str_int t = str_int mysql_lock_timeout \<longrightarrow> t = mysql_lock_timeout"
    by (simp add: str_int_inject)
  moreover have "\<forall>x. execute_result d s (mysql_get_lock lock_name mysql_lock_timeout) = Inr x \<longrightarrow>
            snd (create_global_lock d (PSession s) pg_lock_id lock_name mysql_lock_timeout block w) =
              emit (EvExecute s (mysql_release_lock lock_name))
                (snd (block (emit (EvExecute s (mysql_get_lock lock_name mysql_lock_timeout)) w)))
            \<and> (\<forall>y. execute_result d s (mysql_release_lock lock_name) = Inr y \<longrightarrow>
                 fst (create_global_lock d (PSession s) pg_lock_id lock_name mysql_lock_timeout block w) =
                   fst (block (emit (EvExecute s (mysql_get_lock lock_name mysql_lock_timeout)) w)))
            \<and> (\<forall>R. execute_result d s (mysql_release_lock lock_name) = Inl R \<longrightarrow>
                 fst (create_global_lock d (PSession s) pg_lock_id lock_name mysql_lock_timeout block w) =
                   Inl R)"
    using assms by (simp add: lock_defs split: prod.splits sum.splits option.splits)
  moreover have "\<forall>e. execute_result d s (mysql_get_lock lock_name mysql_lock_timeout) = Inl e \<longrightarrow>
            snd (create_global_lock d (PSession s) pg_lock_id lock_name mysql_lock_timeout block w) =
              emit (EvExecute s (mysql_release_lock lock_name))
                (emit (EvExecute s (mysql_get_lock lock_name mysql_lock_timeout)) w)
            \<and> (\<forall>y. execute_result d s (mysql_release_lock lock_name) = Inr y \<longrightarrow>
                 fst (create_global_lock d (PSession s) pg_lock_id lock_name mysql_lock_timeout block w) =
                   Inl e)
            \<and> (\<forall>R. execute_result d s (mysql_release_lock lock_name) = Inl R \<longrightarrow>
                 fst (create_global_lock d (PSession s) pg_lock_id lock_name mysql_lock_timeout block w) =
                   Inl R)"
    using assms by (simp add: lock_defs split: prod.splits sum.splits option.splits)
  ultimately show ?thesis
    by blast
qed

text \<open>
  Under the lock name \<^verbatim>\<open>upgrade\<close> and a timeout of 30 seconds: a block that raises after
  \<^verbatim>\<open>GET_LOCK\<close> returned 0, a database on which \<^verbatim>\<open>GET_LOCK\<close> raises, and a database on
  which \<^verbatim>\<open>RELEASE_LOCK\<close> raises.
\<close>

theorem create_global_lock_mysql_witness:
  "create_global_lock timed_out_mysql_db (PSession 0) 1 ''upgrade'' 30 failing_migration_block
     fresh_world =
     (Inl (Exception ''RuntimeError'' ''migration failed''),
      \<lparr>opened = 0,
         trace = [EvExecute 0 ''select GET_LOCK('upgrade',30);'',
                  EvExecute 0 ''alter table dag add column x int;'',
                  EvExecute 0 ''select RELEASE_LOCK('upgrade');'']\<rparr>)
   \<and> create_global_lock unreachable_mysql_db (PSession 0) 1 ''upgrade'' 30 migration_block
       fresh_world =
     (Inl (Exception ''OperationalError'' ''Lost connection''),
      \<lparr>opened = 0,
         trace = [EvExecute 0 ''select GET_LOCK('upgrade',30);'',
                  EvExecute 0 ''select RELEASE_LOCK('upgrade');'']\<rparr>)
   \<and> create_global_lock failing_release_mysql_db (PSession 0) 1 ''upgrade'' 30 migration_block
       fresh_world =
     (Inl (Exception ''OperationalError'' ''release failed''),
      \<lparr>opened = 0,
         trace = [EvExecute 0 ''select GET_LOCK('upgrade',30);'',
                  EvExecute 0 ''alter table dag add column x int;'',
                  EvExecute 0 ''select RELEASE_LOCK('upgrade');'']\<rparr>)"
  using
    create_global_lock_mysql [of timed_out_mysql_db "''upgrade''" 30 0 1 failing_migration_block
      fresh_world]
    create_global_lock_mysql [of unreachable_mysql_db "''upgrade''" 30 0 1 migration_block
      fresh_world]
    create_global_lock_mysql [of failing_release_mysql_db "''upgrade''" 30 0 1 migration_block
      fresh_world]
  by (simp add: sample_defs statements_of_samples emit_def prod_eq_iff)

text \<open>
  Claim C6 as stated fails: with a timeout of 1 second, \<^verbatim>\<open>GET_LOCK\<close> returns 0, the lock
  was not granted, and the block runs all the same; the caller gets the value of the block
  and no error.
\<close>

theorem create_global_lock_mysql_counterexample:
  "execute_result timed_out_mysql_db 0 ''select GET_LOCK('init',1);'' = Inr (Some 0)
   \<and> create_global_lock timed_out_mysql_db (PSession 0) 1 ''init'' 1 migration_block fresh_world =
     (Inr (PStr ''upgraded''),
      \<lparr>opened = 0,
         trace = [EvExecute 0 ''select GET_LOCK('init',1);'',
                  EvExecute 0 ''alter table dag add column x int;'',
                  EvExecute 0 ''select RELEASE_LOCK('init');'']\<rparr>)"
  by (simp add: lock_defs sample_defs statements_of_defaults emit_def)

text \<open>
  Claim C7. On the \<^verbatim>\<open>mysql\<close> dialect at a version that is not at least \<^verbatim>\<open>(5, 6)\<close>,
  with session \<open>s\<close>, the scope is the block and nothing else: no statement is issued on entry
  or on exit, and result and world are those of the block. That is what the scope does on
  the \<^verbatim>\<open>mssql\<close> dialect, whose branches are empty.
\<close>

theorem create_global_lock_old_mysql:
  assumes "dialect_name d = ''mysql''"
      and "\<not> tuple_ge (server_version_info d) [5, 6]"
  shows "create_global_lock d (PSession s) pg_lock_id lock_name mysql_lock_timeout block w = block w
       \<and> (\<forall>d'. dialect_name d' = ''mssql'' \<longrightarrow>
            create_global_lock d' (PSession s) pg_lock_id lock_name mysql_lock_timeout block w =
            create_global_lock d (PSession s) pg_lock_id lock_name mysql_lock_timeout block w)"
  using assms by (simp add: lock_defs split: prod.splits sum.splits option.splits)

theorem create_global_lock_old_mysql_witness:
  "create_global_lock old_mysql_db (PSession 0) 1 ''init'' 1800 migration_block fresh_world =
     (Inr (PStr ''upgraded''),
      \<lparr>opened = 0, trace = [EvExecute 0 ''alter table dag add column x int;'']\<rparr>)
   \<and> create_global_lock mssql_db (PSession 0) 1 ''init'' 1800 migration_block fresh_world =
     create_global_lock old_mysql_db (PSession 0) 1 ''init'' 1800 migration_block fresh_world"
  using create_global_lock_old_mysql [of old_mysql_db 0 1 "''init''" 1800 migration_block
      fresh_world]
  by (simp add: sample_defs emit_def)

text \<open>
  The decorated function hands the generator the session of the call, or the one the
  wrapper constructs. In the second case the wrapper's scope is over before the
  \<^verbatim>\<open>with\<close> statement enters the lock: the session has been committed and closed when
  the lock statements are issued on it. In both cases the scope is \<open>create_global_lock\<close>
  on the bound arguments, to which the theorems above apply.
\<close>

lemma provide_session_create_global_lock:
  "provide_session d (create_global_lock_func bind) =
     Inr (wrapper d (create_global_lock_func bind) 0)"
  by (simp add: provide_session_def find_session_idx_def create_global_lock_func_def)

lemma with_create_global_lock_supplied:
  assumes "''session'' \<in> set (map fst kwargs) \<or> args \<noteq> []"
      and "bind args kwargs = Inr a"
  shows "with_create_global_lock d bind args kwargs block w =
           create_global_lock d (bound_session a) (bound_pg_lock_id a) (bound_lock_name a)
             (bound_mysql_lock_timeout a) block w"
  unfolding with_create_global_lock_def provide_session_create_global_lock
  using assms by (auto simp: wrapper_def create_global_lock_func_def)

lemma with_create_global_lock_provided:
  assumes "''session'' \<notin> set (map fst kwargs)"
      and "bind [] ((''session'', PSession (opened w)) # kwargs) = Inr a"
      and "commit_result d (opened w) = None"
      and "close_result d (opened w) = None"
  shows "with_create_global_lock d bind [] kwargs block w =
           create_global_lock d (bound_session a) (bound_pg_lock_id a) (bound_lock_name a)
             (bound_mysql_lock_timeout a) block
             (w\<lparr>opened := Suc (opened w),
                trace := trace w @
                  [EvSession (opened w), EvCommit (opened w), EvClose (opened w)]\<rparr>)"
  unfolding with_create_global_lock_def provide_session_create_global_lock
  using assms by (simp add: wrapper_def create_global_lock_func_def create_session_defs)

text \<open>
  \<^verbatim>\<open>with create_global_lock(): ...\<close> and \<^verbatim>\<open>with create_global_lock(session=s5): ...\<close>
  on the \<^verbatim>\<open>postgresql\<close> dialect.
\<close>

lemma with_create_global_lock_examples:
  "with_create_global_lock healthy_db default_bind [] [] migration_block fresh_world =
     (Inr (PStr ''upgraded''),
      \<lparr>opened = 1,
         trace = [EvSession 0, EvCommit 0, EvClose 0,
                  EvExecute 0 ''select PG_ADVISORY_LOCK(1);'',
                  EvExecute 0 ''alter table dag add column x int;'',
                  EvExecute 0 ''select PG_ADVISORY_UNLOCK(1);'']\<rparr>)"
  "with_create_global_lock healthy_db default_bind [] [(''session'', PSession 5)] migration_block
     fresh_world =
     (Inr (PStr ''upgraded''),
      \<lparr>opened = 0,
         trace = [EvExecute 5 ''select PG_ADVISORY_LOCK(1);'',
                  EvExecute 0 ''alter table dag add column x int;'',
                  EvExecute 5 ''select PG_ADVISORY_UNLOCK(1);'']\<rparr>)"
  unfolding with_create_global_lock_def provide_session_create_global_lock
  by (simp_all add: wrapper_def create_global_lock_func_def default_bind_def create_session_defs
      lock_defs sample_defs statements_of_defaults)

section \<open>The JSON validator\<close>

text \<open>
  Claim C9, as amended. A field without content, or with the empty string, is accepted
  without being parsed. For every non-empty content: the validator accepts it exactly when
  \<^verbatim>\<open>json.loads\<close> returns; and when \<^verbatim>\<open>json.loads\<close> raises \<^verbatim>\<open>JSONDecodeError\<close> and the
  message formats, the validator raises \<^verbatim>\<open>ValidationError\<close> with the formatted message,
  passed through the field's \<^verbatim>\<open>gettext\<close>.
\<close>

theorem ValidJson_nonempty:
  "(data fld = None \<or> data fld = Some [] \<longrightarrow> ValidJson_call lib self fld = Inr ())
   \<and> (\<forall>text. data fld = Some text \<and> text \<noteq> [] \<longrightarrow>
         ((ValidJson_call lib self fld = Inr ()) = (\<exists>j. json_loads lib text = Inr j))
         \<and> (\<forall>m formatted.
               json_loads lib text = Inl (Exception ''JSONDecodeError'' m)
               \<and> str_format lib (message_or_default self m) text = Inr formatted \<longrightarrow>
               ValidJson_call lib self fld =
                 Inl (Exception ''ValidationError'' (gettext fld formatted))))"
  by (auto simp: ValidJson_call_def split: sum.splits option.splits)

theorem ValidJson_nonempty_witness:
  "ValidJson_call sample_library default_validator (text_field ''{}'') = Inr ()
   \<and> ValidJson_call sample_library default_validator (text_field ''<dag/>'') =
       Inl (Exception ''ValidationError''
              ''JSON Validation Error: Expecting value: line 1 column 1 (char 0)'')
   \<and> ValidJson_call sample_library default_validator empty_field = Inr ()"
  using
    ValidJson_nonempty [of "text_field ''{}''" sample_library default_validator]
    ValidJson_nonempty [of "text_field ''<dag/>''" sample_library default_validator]
    ValidJson_nonempty [of empty_field sample_library default_validator]
  by (simp add: sample_library_def default_validator_def text_field_def empty_field_def
      message_or_default_def)

text \<open>
  Claim C9 as stated fails on the empty string: \<^verbatim>\<open>json.loads('')\<close> raises
  \<^verbatim>\<open>JSONDecodeError\<close>, yet the guard \<^verbatim>\<open>if field.data:\<close> skips the check and the
  validator accepts the field.
\<close>

theorem ValidJson_empty_counterexample:
  "json_loads sample_library [] =
     Inl (Exception ''JSONDecodeError'' ''Expecting value: line 1 column 1 (char 0)'')
   \<and> ValidJson_call sample_library default_validator (text_field []) = Inr ()"
  by (simp add: ValidJson_call_def sample_library_def default_validator_def text_field_def)

end
